theory Spec2Isabelle
  imports Complex_Main
begin

section \<open>JavaScript strings\<close>

text \<open>
  A JavaScript string is a sequence of UTF-16 code units. The sources compare, search
  and split strings by code unit, and use the bullet U+2022 and the middle dot U+00B7,
  so a string is modelled as the list of its code units.
\<close>

type_synonym jstring = "nat list"

definition js :: "string \<Rightarrow> jstring" where
  "js s = map of_char s"

definition isWhiteSpace :: "nat \<Rightarrow> bool" where
  \<comment> \<open>WhiteSpace and LineTerminator of ECMAScript: what \<open>trim\<close> strips and \<open>\s\<close> matches\<close>
  "isWhiteSpace c \<longleftrightarrow>
     (9 \<le> c \<and> c \<le> 13) \<or> c = 32 \<or> c = 160 \<or> c = 5760 \<or> (8192 \<le> c \<and> c \<le> 8202) \<or>
     c = 8232 \<or> c = 8233 \<or> c = 8239 \<or> c = 8287 \<or> c = 12288 \<or> c = 65279"

definition isDigit :: "nat \<Rightarrow> bool" where
  "isDigit c \<longleftrightarrow> 48 \<le> c \<and> c \<le> 57"

definition isUpper :: "nat \<Rightarrow> bool" where
  "isUpper c \<longleftrightarrow> 65 \<le> c \<and> c \<le> 90"

definition isLower :: "nat \<Rightarrow> bool" where
  "isLower c \<longleftrightarrow> 97 \<le> c \<and> c \<le> 122"

definition isLetter :: "nat \<Rightarrow> bool" where
  "isLetter c \<longleftrightarrow> isUpper c \<or> isLower c"

definition isWordChar :: "nat \<Rightarrow> bool" where
  \<comment> \<open>\<open>\w\<close>\<close>
  "isWordChar c \<longleftrightarrow> isLetter c \<or> isDigit c \<or> c = 95"

definition isLineTerminator :: "nat \<Rightarrow> bool" where
  "isLineTerminator c \<longleftrightarrow> c = 10 \<or> c = 13 \<or> c = 8232 \<or> c = 8233"

definition lowerUnit :: "nat \<Rightarrow> nat" where
  "lowerUnit c = (if isUpper c then c + 32 else c)"

definition toLowerCase :: "jstring \<Rightarrow> jstring" where
  \<comment> \<open>\<open>String.prototype.toLowerCase\<close> on the letters of Basic Latin; the case table of
      the other Unicode blocks is not part of the repository, and their code units are
      left as they are\<close>
  "toLowerCase s = map lowerUnit s"

definition trim :: "jstring \<Rightarrow> jstring" where
  "trim s = rev (dropWhile isWhiteSpace (rev (dropWhile isWhiteSpace s)))"

fun startsWith :: "jstring \<Rightarrow> jstring \<Rightarrow> bool" where
  "startsWith s [] = True"
| "startsWith [] (p # ps) = False"
| "startsWith (c # cs) (p # ps) = (c = p \<and> startsWith cs ps)"

fun includes_of :: "jstring \<Rightarrow> jstring \<Rightarrow> bool" where
  "includes_of [] sub = (sub = [])"
| "includes_of (c # cs) sub = (startsWith (c # cs) sub \<or> includes_of cs sub)"

fun join :: "jstring \<Rightarrow> jstring list \<Rightarrow> jstring" where
  \<comment> \<open>\<open>Array.prototype.join\<close>, the separator first\<close>
  "join sep [] = []"
| "join sep [x] = x"
| "join sep (x # y # ys) = x @ sep @ join sep (y # ys)"

fun splitStr :: "nat \<Rightarrow> jstring \<Rightarrow> jstring list" where
  \<comment> \<open>\<open>s.split(c)\<close> for a separator of one code unit\<close>
  "splitStr sep [] = [[]]"
| "splitStr sep (c # cs) =
     (if c = sep then [] # splitStr sep cs
      else (case splitStr sep cs of [] \<Rightarrow> [[c]] | w # ws \<Rightarrow> (c # w) # ws))"

fun showNat :: "nat \<Rightarrow> jstring" where
  \<comment> \<open>the decimal digits of a number, as a template literal prints it\<close>
  "showNat n = (if n < 10 then [48 + n] else showNat (n div 10) @ [48 + n mod 10])"

declare showNat.simps [simp del]

section \<open>Regular expressions\<close>

text \<open>
  The regular expressions of the sources are transcribed into a small syntax tree and
  run by a backtracking matcher with the priorities of ECMAScript: the alternatives of
  \<open>|\<close> from left to right, a greedy quantifier first with one more iteration, and an
  iteration that consumes nothing is not repeated. A matcher state is the position and
  the rest of the subject from that position; \<open>ends\<close> lists the states a match can end
  in, in the order backtracking tries them.
\<close>

datatype regex =
    Cls "nat \<Rightarrow> bool"
  | Seq regex regex
  | Alt regex regex
  | Star regex
  | Bol
  | Eol
  | Eps

type_synonym mstate = "nat \<times> jstring"

fun star_ends :: "(mstate \<Rightarrow> mstate list) \<Rightarrow> jstring \<Rightarrow> mstate \<Rightarrow> mstate list"
  and star_next :: "(mstate \<Rightarrow> mstate list) \<Rightarrow> jstring \<Rightarrow> nat \<Rightarrow> mstate list \<Rightarrow> mstate list" where
  \<comment> \<open>the second argument bounds the number of iterations: each one consumes a code
      unit, so the rest of the subject is a bound that is never reached early\<close>
  "star_ends step [] st = [st]"
| "star_ends step (f # fuel) st = star_next step fuel (fst st) (step st) @ [st]"
| "star_next step fuel i [] = []"
| "star_next step fuel i (st' # sts) =
     (if i < fst st' then star_ends step fuel st' else []) @ star_next step fuel i sts"

fun ends :: "regex \<Rightarrow> mstate \<Rightarrow> mstate list" where
  "ends (Cls p) st =
     (case snd st of [] \<Rightarrow> [] | c # cs \<Rightarrow> if p c then [(Suc (fst st), cs)] else [])"
| "ends (Seq a b) st = concat (map (ends b) (ends a st))"
| "ends (Alt a b) st = ends a st @ ends b st"
| "ends (Star a) st = star_ends (ends a) (snd st) st"
| "ends Bol st = (if fst st = 0 then [st] else [])"
| "ends Eol st = (if snd st = [] then [st] else [])"
| "ends Eps st = [st]"

definition Plus :: "regex \<Rightarrow> regex" where
  "Plus r = Seq r (Star r)"

definition Opt :: "regex \<Rightarrow> regex" where
  "Opt r = Alt r Eps"

fun Rep :: "nat \<Rightarrow> regex \<Rightarrow> regex" where
  \<comment> \<open>\<open>r{n}\<close>\<close>
  "Rep 0 r = Eps"
| "Rep (Suc n) r = Seq r (Rep n r)"

definition AtLeast :: "nat \<Rightarrow> regex \<Rightarrow> regex" where
  \<comment> \<open>\<open>r{n,}\<close>\<close>
  "AtLeast n r = Seq (Rep n r) (Star r)"

fun UpTo :: "nat \<Rightarrow> regex \<Rightarrow> regex" where
  \<comment> \<open>\<open>r{0,n}\<close>\<close>
  "UpTo 0 r = Eps"
| "UpTo (Suc n) r = Opt (Seq r (UpTo n r))"

definition Chr :: "nat \<Rightarrow> regex" where
  "Chr c = Cls (\<lambda>x. x = c)"

definition ChrI :: "nat \<Rightarrow> regex" where
  \<comment> \<open>a letter under the flag \<open>i\<close>\<close>
  "ChrI c = Cls (\<lambda>x. lowerUnit x = lowerUnit c)"

fun Lit :: "jstring \<Rightarrow> regex" where
  "Lit [] = Eps"
| "Lit (c # cs) = Seq (Chr c) (Lit cs)"

fun LitI :: "jstring \<Rightarrow> regex" where
  "LitI [] = Eps"
| "LitI (c # cs) = Seq (ChrI c) (LitI cs)"

fun Alts :: "regex list \<Rightarrow> regex" where
  "Alts [] = Cls (\<lambda>x. False)"
| "Alts [r] = r"
| "Alts (r # rs) = Alt r (Alts rs)"

definition Dot :: regex where
  "Dot = Cls (\<lambda>x. \<not> isLineTerminator x)"

fun execFrom :: "regex \<Rightarrow> nat \<Rightarrow> jstring \<Rightarrow> (nat \<times> mstate) option" where
  \<comment> \<open>the leftmost match from position \<open>i\<close> on: its start and the state at its end\<close>
  "execFrom r i [] = (case ends r (i, []) of [] \<Rightarrow> None | e # _ \<Rightarrow> Some (i, e))"
| "execFrom r i (c # cs) =
     (case ends r (i, c # cs) of [] \<Rightarrow> execFrom r (Suc i) cs | e # _ \<Rightarrow> Some (i, e))"

definition test :: "regex \<Rightarrow> jstring \<Rightarrow> bool" where
  "test r s \<longleftrightarrow> execFrom r 0 s \<noteq> None"

lemma star_ends_mono:
  "st' \<in> set (star_ends step fuel st) \<Longrightarrow>
     \<forall>a b. b \<in> set (step a) \<longrightarrow>
       fst a \<le> fst b \<and> fst b + length (snd b) = fst a + length (snd a) \<Longrightarrow>
     fst st \<le> fst st' \<and> fst st' + length (snd st') = fst st + length (snd st)"
  "st' \<in> set (star_next step fuel i sts) \<Longrightarrow>
     \<forall>a b. b \<in> set (step a) \<longrightarrow>
       fst a \<le> fst b \<and> fst b + length (snd b) = fst a + length (snd a) \<Longrightarrow>
     \<exists>m \<in> set sts. i < fst m \<and> fst m \<le> fst st' \<and>
       fst st' + length (snd st') = fst m + length (snd m)"
proof (induction step fuel st and step fuel i sts rule: star_ends_star_next.induct)
  case (1 step st)
  then show ?case by simp
next
  case (2 step f fuel st)
  from "2.prems" (1) consider "st' = st" | "st' \<in> set (star_next step fuel (fst st) (step st))"
    by auto
  then show ?case
  proof cases
    case 1
    then show ?thesis by simp
  next
    case 2
    from "2.IH" [OF this "2.prems" (2)] obtain m where
      m: "m \<in> set (step st)" "fst m \<le> fst st'"
         "fst st' + length (snd st') = fst m + length (snd m)"
      by auto
    from "2.prems" (2) m(1) have
      "fst st \<le> fst m \<and> fst m + length (snd m) = fst st + length (snd st)" by blast
    with m(2,3) show ?thesis by simp
  qed
next
  case (3 step fuel i)
  then show ?case by simp
next
  case (4 step fuel i st'' sts)
  from "4.prems" (1) consider "i < fst st''" "st' \<in> set (star_ends step fuel st'')"
    | "st' \<in> set (star_next step fuel i sts)"
    by (auto split: if_splits)
  then show ?case
  proof cases
    case 1
    from "4.IH" (1) [OF 1(1) 1(2) "4.prems" (2)] 1(1) show ?thesis by auto
  next
    case 2
    from "4.IH" (2) [OF this "4.prems" (2)] show ?thesis by auto
  qed
qed

lemma ends_mono:
  "st' \<in> set (ends r st) \<Longrightarrow>
     fst st \<le> fst st' \<and> fst st' + length (snd st') = fst st + length (snd st)"
proof (induction r arbitrary: st st')
  case (Cls p)
  then show ?case by (cases st) (auto split: list.splits if_splits)
next
  case (Seq a b)
  from Seq.prems obtain m where "m \<in> set (ends a st)" "st' \<in> set (ends b m)" by auto
  with Seq.IH show ?case by fastforce
next
  case (Alt a b)
  from Alt.prems have "st' \<in> set (ends a st) \<or> st' \<in> set (ends b st)" by simp
  with Alt.IH show ?case by blast
next
  case (Star a)
  from Star.prems have "st' \<in> set (star_ends (ends a) (snd st) st)" by simp
  moreover from Star.IH have
    "\<forall>x y. y \<in> set (ends a x) \<longrightarrow>
       fst x \<le> fst y \<and> fst y + length (snd y) = fst x + length (snd x)"
    by blast
  ultimately show ?case by (rule star_ends_mono (1))
qed (auto split: if_splits)

lemma execFrom_bounds:
  "execFrom r i rest = Some (a, e) \<Longrightarrow>
     i \<le> a \<and> a \<le> fst e \<and> fst e + length (snd e) = i + length rest"
proof (induction rest arbitrary: i)
  case Nil
  then obtain es where "ends r (i, []) = e # es" "a = i"
    by (auto split: list.splits)
  then have "e \<in> set (ends r (i, []))" by simp
  from ends_mono [OF this] \<open>a = i\<close> show ?case by simp
next
  case (Cons c cs)
  show ?case
  proof (cases "ends r (i, c # cs)")
    case Nil
    with Cons.prems have "execFrom r (Suc i) cs = Some (a, e)" by simp
    from Cons.IH [OF this] show ?thesis by simp
  next
    case (Cons e' es)
    with Cons.prems have "e' = e" "a = i" by simp_all
    with Cons have "e \<in> set (ends r (i, c # cs))" by simp
    from ends_mono [OF this] \<open>a = i\<close> show ?thesis by simp
  qed
qed

function matchesFrom :: "regex \<Rightarrow> nat \<Rightarrow> jstring \<Rightarrow> (nat \<times> nat) list" where
  \<comment> \<open>the matches of a regular expression with the flag \<open>g\<close>, from \<open>lastIndex = i\<close> on:
      after an empty match \<open>lastIndex\<close> advances by one\<close>
  "matchesFrom r i [] =
     (case execFrom r i [] of None \<Rightarrow> [] | Some (a, e) \<Rightarrow> [(a, fst e)])"
| "matchesFrom r i (x # xs) =
     (case execFrom r i (x # xs) of
        None \<Rightarrow> []
      | Some (a, e) \<Rightarrow>
          (a, fst e) #
          (if fst e = a then (case snd e of [] \<Rightarrow> [] | c # cs \<Rightarrow> matchesFrom r (Suc a) cs)
           else matchesFrom r (fst e) (snd e)))"
  by pat_completeness auto
termination
proof (relation "measure (\<lambda>(r, i, rest). length rest)", goal_cases)
  case 1
  show ?case by simp
next
  case (2 r i x xs y a e c cs)
  from 2(1) 2(2) have "execFrom r i (x # xs) = Some (a, e)" by simp
  from execFrom_bounds [OF this] 2(4) show ?case by (cases e) simp
next
  case (3 r i x xs y a e)
  from 3(1) 3(2) have "execFrom r i (x # xs) = Some (a, e)" by simp
  from execFrom_bounds [OF this] 3(3) show ?case by (cases e) simp
qed

fun substrings :: "jstring \<Rightarrow> (nat \<times> nat) list \<Rightarrow> jstring list" where
  "substrings s [] = []"
| "substrings s ((a, b) # ms) = take (b - a) (drop a s) # substrings s ms"

definition matchAll :: "regex \<Rightarrow> jstring \<Rightarrow> jstring list" where
  \<comment> \<open>\<open>s.match(r) || []\<close> for \<open>r\<close> with the flag \<open>g\<close>\<close>
  "matchAll r s = substrings s (matchesFrom r 0 s)"

fun replaceAt :: "jstring \<Rightarrow> jstring \<Rightarrow> nat \<Rightarrow> (nat \<times> nat) list \<Rightarrow> jstring" where
  "replaceAt s rep p [] = drop p s"
| "replaceAt s rep p ((a, b) # ms) = take (a - p) (drop p s) @ rep @ replaceAt s rep b ms"

definition replaceAll :: "regex \<Rightarrow> jstring \<Rightarrow> jstring \<Rightarrow> jstring" where
  \<comment> \<open>\<open>s.replace(r, rep)\<close> for \<open>r\<close> with the flag \<open>g\<close>\<close>
  "replaceAll r rep s = replaceAt s rep 0 (matchesFrom r 0 s)"

definition replaceFirst :: "regex \<Rightarrow> jstring \<Rightarrow> jstring \<Rightarrow> jstring" where
  \<comment> \<open>\<open>s.replace(r, rep)\<close> for \<open>r\<close> without the flag \<open>g\<close>\<close>
  "replaceFirst r rep s =
     (case execFrom r 0 s of None \<Rightarrow> s | Some (a, e) \<Rightarrow> take a s @ rep @ snd e)"

function splitLoop :: "regex \<Rightarrow> jstring \<Rightarrow> nat \<Rightarrow> nat \<Rightarrow> jstring \<Rightarrow> jstring list" where
  \<comment> \<open>the loop of \<open>String.prototype.split\<close> for a regular expression without groups:
      \<open>p\<close> is the start of the current piece, \<open>q\<close> the position tried, and the last
      argument the subject from \<open>q\<close>. An empty match at \<open>q > p\<close> closes the piece and is
      then skipped.\<close>
  "splitLoop r s p q [] = [drop p s]"
| "splitLoop r s p q (c # cs) =
     (case ends r (q, c # cs) of
        [] \<Rightarrow> splitLoop r s p (Suc q) cs
      | e # _ \<Rightarrow>
          if fst e = p then splitLoop r s p (Suc q) cs
          else take (q - p) (drop p s) #
               (if fst e = q then splitLoop r s q (Suc q) cs
                else splitLoop r s (fst e) (fst e) (snd e)))"
  by pat_completeness auto
termination
proof (relation "measure (\<lambda>(r, s, p, q, rest). length rest)", goal_cases)
  case (5 r s p q c cs e es)
  then have "e \<in> set (ends r (q, c # cs))" by simp
  from ends_mono [OF this] 5 show ?case by (cases e) simp
qed simp_all

definition splitRe :: "regex \<Rightarrow> jstring \<Rightarrow> jstring list" where
  \<comment> \<open>\<open>s.split(r)\<close>\<close>
  "splitRe r s =
     (if s = [] then (if ends r (0, []) = [] then [[]] else []) else splitLoop r s 0 0 s)"

section \<open>Deterministic answer analysis (backend/src/routes/performance.ts)\<close>

text \<open>
  A JavaScript number is modelled exactly as a rational; the only division whose divisor
  can be zero is the average word count, whose result is then \<open>NaN\<close> (the dividend is a
  sum of word counts, so it is zero as well when there are no answers) or \<open>Infinity\<close>.
\<close>

datatype number = NaN | Infinity | Num rat

fun divNum :: "number \<Rightarrow> nat \<Rightarrow> number" where
  "divNum (Num x) n =
     (if n = 0 then (if x = 0 then NaN else Infinity) else Num (x / of_nat n))"
| "divNum Infinity n = Infinity"
| "divNum NaN n = NaN"

fun addNum :: "number \<Rightarrow> nat \<Rightarrow> number" where
  "addNum (Num x) n = Num (x + of_nat n)"
| "addNum Infinity n = Infinity"
| "addNum NaN n = NaN"

fun lessNum :: "number \<Rightarrow> rat \<Rightarrow> bool" where
  \<comment> \<open>\<open>x < y\<close>: false when \<open>x\<close> is \<open>NaN\<close>\<close>
  "lessNum (Num x) y = (x < y)"
| "lessNum Infinity y = False"
| "lessNum NaN y = False"

definition mathRound :: "rat \<Rightarrow> int" where
  \<comment> \<open>\<open>Math.round\<close>: to the nearest integer, a half upwards\<close>
  "mathRound x = \<lfloor>x + 1 / 2\<rfloor>"

record answer_entry =
  questionIndex :: nat
  answer :: jstring

record question_entry =
  question :: jstring
  qtype :: "jstring option"

record job_details =
  jd_title :: jstring
  jd_company :: jstring
  jd_description :: jstring
  jd_requirements :: jstring

record analysis =
  totalWords :: nat
  averageLength :: number
  technicalTerms :: nat
  experienceMentions :: nat
  problemSolving :: nat
  specificExamples :: nat
  communicationQuality :: nat
  nonsensicalAnswers :: nat
  poorQualityAnswers :: nat
  meaningfulAnswers :: nat

record scores =
  overall :: rat
  technical :: rat
  behavioral :: rat
  communication :: rat

fun includesAny :: "jstring \<Rightarrow> string list \<Rightarrow> bool" where
  \<comment> \<open>a chain \<open>text.includes(w1) || text.includes(w2) || ...\<close>, and
      \<open>ws.some(w => text.includes(w))\<close>\<close>
  "includesAny text [] = False"
| "includesAny text (w # ws) = (includes_of text (js w) \<or> includesAny text ws)"

definition isConsonant :: "nat \<Rightarrow> bool" where
  \<comment> \<open>\<open>[bcdfghjklmnpqrstvwxyz]\<close> under the flag \<open>i\<close>\<close>
  "isConsonant c \<longleftrightarrow>
     isLetter c \<and> lowerUnit c \<notin> {97, 101, 105, 111, 117}"

fun repeated3 :: "jstring \<Rightarrow> bool" where
  \<comment> \<open>\<open>/(.)\1{2,}/\<close>: a code unit that is not a line terminator, three times in a row\<close>
  "repeated3 (a # b # c # cs) =
     ((a = b \<and> b = c \<and> \<not> isLineTerminator a) \<or> repeated3 (b # c # cs))"
| "repeated3 cs = False"

definition wordCountOf :: "jstring \<Rightarrow> nat" where
  \<comment> \<open>\<open>text.split(/\s+/).filter(word => word.length > 0).length\<close>\<close>
  "wordCountOf text = length (filter (\<lambda>w. length w > 0) (splitRe (Plus (Cls isWhiteSpace)) text))"

definition isNonsensicalAnswer :: "jstring \<Rightarrow> nat \<Rightarrow> bool" where
  "isNonsensicalAnswer text wordCount =
     (if wordCount \<le> 1 then True
      else if wordCount \<le> 4 then
        test (Seq Bol (Seq (Seq (Cls isLetter) (UpTo 3 (Cls isLetter))) Eol)) text \<or>
        test (Seq Bol (Seq (Star (Cls (\<lambda>c. \<not> (isLetter c \<or> isDigit c \<or> isWhiteSpace c)))) Eol)) text \<or>
        test (Seq Bol (Seq (Star (Cls (\<lambda>c. isDigit c \<or> isWhiteSpace c))) Eol)) text \<or>
        repeated3 text \<or>
        test (Seq Bol (Seq (Seq (Cls isConsonant) (UpTo 3 (Cls isConsonant))) Eol)) text
      else False)"

definition meaningfulWords :: "string list" where
  "meaningfulWords =
     [''worked'', ''developed'', ''created'', ''built'', ''implemented'', ''designed'',
      ''managed'', ''led'', ''collaborated'', ''solved'', ''challenge'', ''problem'',
      ''experience'', ''project'', ''team'', ''result'', ''outcome'', ''success'',
      ''learned'', ''improved'', ''optimized'', ''enhanced'', ''achieved'']"

definition isPoorQualityAnswer :: "jstring \<Rightarrow> nat \<Rightarrow> bool" where
  "isPoorQualityAnswer text wordCount =
     (if wordCount < 10 then True
      else if wordCount < 20 then \<not> includesAny text meaningfulWords
      else False)"

definition analyzeAnswer :: "analysis \<Rightarrow> answer_entry \<Rightarrow> analysis" where
  \<comment> \<open>the body of the \<open>forEach\<close> of \<open>analyzeAnswers\<close>\<close>
  "analyzeAnswer a0 ans =
     (let text = trim (toLowerCase (answer ans));
          wordCount = wordCountOf text;
          a1 = a0\<lparr>totalWords := totalWords a0 + wordCount,
                  averageLength := addNum (averageLength a0) wordCount\<rparr>
      in if isNonsensicalAnswer text wordCount
         then a1\<lparr>nonsensicalAnswers := nonsensicalAnswers a1 + 1\<rparr>
         else
           let a2 = (if isPoorQualityAnswer text wordCount
                     then a1\<lparr>poorQualityAnswers := poorQualityAnswers a1 + 1\<rparr>
                     else a1\<lparr>meaningfulAnswers := meaningfulAnswers a1 + 1\<rparr>);
               a3 = (if includesAny text
                          [''technology'', ''software'', ''system'', ''development'', ''coding'',
                           ''programming'', ''api'', ''database'', ''framework'', ''react'',
                           ''node'', ''javascript'']
                     then a2\<lparr>technicalTerms := technicalTerms a2 + 1\<rparr> else a2);
               a4 = (if includesAny text
                          [''experience'', ''worked'', ''project'', ''developed'', ''implemented'',
                           ''built'', ''created'', ''managed'', ''led'']
                     then a3\<lparr>experienceMentions := experienceMentions a3 + 1\<rparr> else a3);
               a5 = (if includesAny text
                          [''challenge'', ''problem'', ''solved'', ''overcame'', ''difficult'',
                           ''troubleshoot'', ''debug'', ''fix'', ''issue'']
                     then a4\<lparr>problemSolving := problemSolving a4 + 1\<rparr> else a4);
               a6 = (if includesAny text
                          [''example'', ''specific'', ''instance'', ''case'', ''situation'',
                           ''time when'', ''once'', ''when i'']
                     then a5\<lparr>specificExamples := specificExamples a5 + 1\<rparr> else a5)
           in if wordCount \<ge> 20 \<and> wordCount \<le> 200 \<and>
                 length (splitRe (Plus (Cls (\<lambda>c. c = 46 \<or> c = 33 \<or> c = 63))) text) > 1
              then a6\<lparr>communicationQuality := communicationQuality a6 + 1\<rparr> else a6)"

definition emptyAnalysis :: analysis where
  "emptyAnalysis =
     \<lparr>totalWords = 0, averageLength = Num 0, technicalTerms = 0, experienceMentions = 0,
      problemSolving = 0, specificExamples = 0, communicationQuality = 0,
      nonsensicalAnswers = 0, poorQualityAnswers = 0, meaningfulAnswers = 0\<rparr>"

definition analyzeAnswers :: "answer_entry list \<Rightarrow> analysis" where
  "analyzeAnswers answers =
     (let a = foldl analyzeAnswer emptyAnalysis answers
      in a\<lparr>averageLength := divNum (averageLength a) (length answers)\<rparr>)"

definition calculateScores :: "answer_entry list \<Rightarrow> analysis \<Rightarrow> job_details \<Rightarrow> scores" where
  "calculateScores answers a jobDetails =
     (if nonsensicalAnswers a > 0 then
        \<lparr>overall = min 15 (of_nat (nonsensicalAnswers a) * 5),
         technical = min 10 (of_nat (nonsensicalAnswers a) * 3),
         behavioral = min 10 (of_nat (nonsensicalAnswers a) * 3),
         communication = min 15 (of_nat (nonsensicalAnswers a) * 4)\<rparr>
      else if poorQualityAnswers a > 0 then
        let poorQualityPenalty = of_nat (poorQualityAnswers a) * 20;
            technical0 = (if technicalTerms a > 0
                          then min (of_nat (technicalTerms a) * 15) 100 else 0);
            technical1 = max 0 (technical0 - poorQualityPenalty);
            behavioral0 = (if problemSolving a > 0 \<or> specificExamples a > 0
                           then min (of_nat (problemSolving a + specificExamples a) * 12) 100
                           else 0);
            behavioral1 = max 0 (behavioral0 - poorQualityPenalty);
            communication0 = (if communicationQuality a > 0
                              then min (of_nat (communicationQuality a) * 20) 100 else 0);
            communication1 = max 0 (communication0 - poorQualityPenalty);
            overall1 = max 0 ((technical1 + behavioral1 + communication1) / 3 - poorQualityPenalty)
        in \<lparr>overall = overall1, technical = technical1, behavioral = behavioral1,
            communication = communication1\<rparr>
      else
        let technical0 = (if meaningfulAnswers a > 0 \<and> technicalTerms a > 0
                          then min (of_nat (technicalTerms a) * 20) 100 else 0);
            behavioral0 = (if meaningfulAnswers a > 0 \<and>
                              (problemSolving a > 0 \<or> specificExamples a > 0)
                           then min (of_nat (problemSolving a + specificExamples a) * 15) 100
                           else 0);
            communication0 = (if meaningfulAnswers a > 0 \<and> communicationQuality a > 0
                              then min (of_nat (communicationQuality a) * 25) 100 else 0);
            overall0 = (if meaningfulAnswers a > 0
                        then (technical0 + behavioral0 + communication0) / 3 else 0)
        in \<lparr>overall = max 0 (min 100 overall0), technical = max 0 (min 100 technical0),
            behavioral = max 0 (min 100 behavioral0),
            communication = max 0 (min 100 communication0)\<rparr>)"

record feedback_lists =
  fb_strengths :: "jstring list"
  fb_weaknesses :: "jstring list"
  fb_suggestions :: "jstring list"

definition generateFeedback :: "answer_entry list \<Rightarrow> analysis \<Rightarrow> job_details \<Rightarrow> feedback_lists" where
  "generateFeedback answers a jobDetails =
     (let strengths0 =
            (if experienceMentions a > 0
             then [js ''Demonstrated relevant experience and background''] else []) @
            (if problemSolving a > 0
             then [js ''Showed problem-solving abilities and critical thinking''] else []) @
            (if specificExamples a > 0
             then [js ''Provided specific examples and concrete situations''] else []) @
            (if communicationQuality a > 0
             then [js ''Good communication skills and clarity in responses''] else []) @
            (if technicalTerms a > 0
             then [js ''Demonstrated technical knowledge and expertise''] else []);
          strengths1 =
            (if length strengths0 = 0
             then [js ''Good communication skills'', js ''Demonstrated relevant experience'',
                   js ''Provided specific examples'']
             else strengths0);
          weaknesses0 =
            (if lessNum (averageLength a) 50
             then [js ''Could provide more detailed and comprehensive answers''] else []) @
            (if specificExamples a = 0
             then [js ''Consider using more specific examples and concrete situations''] else []) @
            (if problemSolving a = 0
             then [js ''Could demonstrate more problem-solving scenarios''] else []) @
            (if technicalTerms a = 0 \<and>
                includes_of (toLowerCase (jd_title jobDetails)) (js ''technical'')
             then [js ''Could elaborate more on technical skills and knowledge''] else []);
          weaknesses1 =
            (if length weaknesses0 = 0
             then [js ''Could provide more detailed technical explanations'',
                   js ''Consider using more specific metrics in answers'',
                   js ''Practice STAR method for behavioral questions'']
             else weaknesses0);
          suggestions0 =
            [js ''Practice common interview questions regularly'',
             js ''Prepare specific examples for your experience'',
             js ''Use the STAR method (Situation, Task, Action, Result)'',
             js ''Research the company and role thoroughly'',
             js ''Practice speaking clearly and confidently''] @
            (if lessNum (averageLength a) 50
             then [js ''Practice giving more detailed responses''] else []) @
            (if specificExamples a = 0
             then [js ''Prepare specific examples for common interview questions''] else [])
      in \<lparr>fb_strengths = strengths1, fb_weaknesses = weaknesses1,
          fb_suggestions = suggestions0\<rparr>)"

definition questionFeedback :: "question_entry \<Rightarrow> nat \<Rightarrow> answer_entry list \<Rightarrow> job_details \<Rightarrow> jstring" where
  \<comment> \<open>the body of the \<open>forEach\<close> of \<open>generateDetailedFeedback\<close>: the text stored
      under the key of the question at \<open>index\<close>\<close>
  "questionFeedback q index answers jobDetails =
     (case find (\<lambda>ans. questionIndex ans = index) answers of
        None \<Rightarrow>
          js ''No answer provided. Consider preparing responses for common interview questions.''
      | Some ans \<Rightarrow>
          let answerText = toLowerCase (answer ans);
              wordCount = length (splitStr 32 (answer ans));
              questionType = (case qtype q of
                                None \<Rightarrow> js ''General''
                              | Some t \<Rightarrow> if t = [] then js ''General'' else t);
              byType =
                (if includes_of (toLowerCase questionType) (js ''technical'') then
                   (if includesAny answerText [''experience'', ''worked'', ''developed'']
                    then js ''Good use of specific experience and examples. ''
                    else js ''Consider providing more specific technical examples from your experience. '') @
                   (if wordCount < 30
                    then js ''Could elaborate more on technical details and implementation. ''
                    else [])
                 else if includes_of (toLowerCase questionType) (js ''behavioral'') then
                   (if includesAny answerText [''situation'', ''task'', ''action'', ''result'']
                    then js ''Excellent use of STAR method for behavioral questions. ''
                    else js ''Consider using the STAR method (Situation, Task, Action, Result) for better structure. '') @
                   (if wordCount < 40
                    then js ''Could provide more detailed examples and context. ''
                    else [])
                 else
                   (if wordCount < 20
                    then js ''Consider providing more comprehensive answers with specific examples. ''
                    else if wordCount > 100
                    then js ''Good detailed response, but ensure you stay focused on the key points. ''
                    else js ''Well-structured response with good detail. ''));
              quality =
                (if wordCount \<ge> 30 \<and> wordCount \<le> 80
                 then js ''Good communication skills demonstrated. ''
                 else if wordCount < 30
                 then js ''Consider expanding your answer for better clarity. ''
                 else []);
              relevance =
                (if includes_of answerText (toLowerCase (jd_title jobDetails)) \<or>
                    includes_of answerText (toLowerCase (jd_company jobDetails)) \<or>
                    includesAny answerText [''relevant'', ''applicable'']
                 then js ''Good relevance to the position and company. ''
                 else []);
              feedback = byType @ quality @ relevance
          in if trim feedback = []
             then js ''Good response. Consider adding more specific examples to strengthen your answer.''
             else trim feedback)"

fun detailedFrom :: "nat \<Rightarrow> question_entry list \<Rightarrow> answer_entry list \<Rightarrow> job_details \<Rightarrow> (jstring \<times> jstring) list" where
  \<comment> \<open>the entries written for the questions from \<open>index\<close> on, in the order written;
      the keys \<open>question1\<close>, \<open>question2\<close>, ... differ, so no entry overwrites another\<close>
  "detailedFrom index [] answers jobDetails = []"
| "detailedFrom index (q # qs) answers jobDetails =
     (js ''question'' @ showNat (index + 1), questionFeedback q index answers jobDetails) #
     detailedFrom (Suc index) qs answers jobDetails"

definition generateDetailedFeedback :: "question_entry list \<Rightarrow> answer_entry list \<Rightarrow> job_details \<Rightarrow> (jstring \<times> jstring) list" where
  "generateDetailedFeedback questions answers jobDetails = detailedFrom 0 questions answers jobDetails"

record smart_analysis =
  overallScore :: int
  technicalScore :: int
  behavioralScore :: int
  communicationScore :: int
  strengths :: "jstring list"
  weaknesses :: "jstring list"
  suggestions :: "jstring list"
  detailedFeedback :: "(jstring \<times> jstring) list"

definition generateSmartAnalysis :: "question_entry list \<Rightarrow> answer_entry list \<Rightarrow> job_details \<Rightarrow> smart_analysis" where
  \<comment> \<open>the completion rate the source computes first is never read\<close>
  "generateSmartAnalysis questions answers jobDetails =
     (let answerAnalysis = analyzeAnswers answers;
          sc = calculateScores answers answerAnalysis jobDetails;
          feedback = generateFeedback answers answerAnalysis jobDetails;
          detailed = generateDetailedFeedback questions answers jobDetails
      in \<lparr>overallScore = mathRound (overall sc),
          technicalScore = mathRound (technical sc),
          behavioralScore = mathRound (behavioral sc),
          communicationScore = mathRound (communication sc),
          strengths = fb_strengths feedback,
          weaknesses = fb_weaknesses feedback,
          suggestions = fb_suggestions feedback,
          detailedFeedback = detailed\<rparr>)"

section \<open>Resume data (backend/src/utils/pdfParser.ts)\<close>

text \<open>
  An optional property of an object is an \<open>option\<close>: \<open>None\<close> is \<open>undefined\<close>. A
  property can be present and hold the empty string, which JavaScript treats as false.
\<close>

record personal_info =
  name :: "jstring option"
  email :: "jstring option"
  phone :: "jstring option"
  location :: "jstring option"

record experience_entry =
  title :: "jstring option"
  company :: "jstring option"
  duration :: "jstring option"
  description :: "jstring option"

record project_entry =
  proj_name :: "jstring option"
  proj_description :: "jstring option"
  technologies :: "jstring list option"

record education_entry =
  degree :: "jstring option"
  institution :: "jstring option"
  year :: "jstring option"

record ParsedResume =
  personalInfo :: personal_info
  skills :: "jstring list"
  experience :: "experience_entry list"
  projects :: "project_entry list"
  education :: "education_entry list"
  certifications :: "jstring list"
  languages :: "jstring list"

fun orElse :: "jstring option \<Rightarrow> jstring \<Rightarrow> jstring" where
  \<comment> \<open>\<open>x || d\<close> for an optional string: \<open>undefined\<close> and the empty string give \<open>d\<close>\<close>
  "orElse None d = d"
| "orElse (Some v) d = (if v = [] then d else v)"

fun truthy :: "jstring option \<Rightarrow> bool" where
  \<comment> \<open>an optional string read as a condition\<close>
  "truthy None = False"
| "truthy (Some v) = (v \<noteq> [])"

section \<open>Smart question generator (backend/src/routes/questions.ts)\<close>

record question_item =
  q_id :: nat
  q_text :: jstring
  q_category :: jstring

definition baseQuestions :: "job_details \<Rightarrow> ParsedResume option \<Rightarrow> question_item list" where
  "baseQuestions jobDetails resumeContent =
     [\<lparr>q_id = 1,
       q_text =
         (case resumeContent of
            None \<Rightarrow>
              js ''Can you tell me about your experience with the technologies and skills required for the '' @
              jd_title jobDetails @ js '' position?''
          | Some r \<Rightarrow>
              if length (skills r) > 0
              then js ''I see you have experience with '' @ join (js '', '') (take 3 (skills r)) @
                   js ''. Can you elaborate on how you've used these skills in your previous work?''
              else
                js ''Can you tell me about your experience with the technologies and skills required for the '' @
                jd_title jobDetails @ js '' position?''),
       q_category = js ''Technical''\<rparr>,
      \<lparr>q_id = 2,
       q_text =
         (case resumeContent of
            None \<Rightarrow>
              js ''What challenges have you faced in your previous projects and how did you overcome them?''
          | Some r \<Rightarrow>
              (case projects r of
                 [] \<Rightarrow>
                   js ''What challenges have you faced in your previous projects and how did you overcome them?''
               | p # ps \<Rightarrow>
                   js ''Tell me about '' @ orElse (proj_name p) (js ''one of your projects'') @
                   js ''. What challenges did you face and how did you overcome them?'')),
       q_category = js ''Behavioral''\<rparr>,
      \<lparr>q_id = 3,
       q_text = js ''Why are you interested in joining '' @ jd_company jobDetails @
                js '' and what excites you about this '' @ jd_title jobDetails @ js '' role?'',
       q_category = js ''Motivation''\<rparr>,
      \<lparr>q_id = 4,
       q_text =
         (case resumeContent of
            None \<Rightarrow>
              js ''Describe a situation where you had to work with a difficult team member or resolve a conflict.''
          | Some r \<Rightarrow>
              (case experience r of
                 [] \<Rightarrow>
                   js ''Describe a situation where you had to work with a difficult team member or resolve a conflict.''
               | e # es \<Rightarrow>
                   js ''In your role as '' @ orElse (title e) (js ''your previous position'') @
                   js '', describe a situation where you had to work with a difficult team member or resolve a conflict.'')),
       q_category = js ''Behavioral''\<rparr>,
      \<lparr>q_id = 5,
       q_text = js ''What are your career goals for the next 3-5 years and how does this position align with them?'',
       q_category = js ''Career''\<rparr>]"

definition isCoreTech :: "jstring \<Rightarrow> bool" where
  \<comment> \<open>\<open>['javascript', ...].includes(skill.toLowerCase())\<close>\<close>
  "isCoreTech skill \<longleftrightarrow>
     toLowerCase skill \<in> set [js ''javascript'', js ''python'', js ''java'', js ''react'',
                               js ''node.js'', js ''typescript'']"

definition isDataProject :: "project_entry \<Rightarrow> bool" where
  "isDataProject proj \<longleftrightarrow>
     (case proj_description proj of
        None \<Rightarrow> False
      | Some d \<Rightarrow>
          d \<noteq> [] \<and>
          (includes_of (toLowerCase d) (js ''data'') \<or>
           includes_of (toLowerCase d) (js ''analysis'')))"

definition isLeadershipRole :: "experience_entry \<Rightarrow> bool" where
  "isLeadershipRole ex \<longleftrightarrow>
     (case title ex of
        None \<Rightarrow> False
      | Some t \<Rightarrow>
          t \<noteq> [] \<and>
          (includes_of (toLowerCase t) (js ''lead'') \<or>
           includes_of (toLowerCase t) (js ''manager'')))"

definition getRoleSpecificQuestions :: "jstring \<Rightarrow> jstring \<Rightarrow> ParsedResume option \<Rightarrow> question_item list" where
  "getRoleSpecificQuestions jobTitle requirements resumeContent =
     (let titleLower = toLowerCase jobTitle in
      (if includesAny titleLower [''software'', ''developer'', ''programmer'']
       then
         [\<lparr>q_id = 6,
           q_text =
             (case resumeContent of
                None \<Rightarrow> js ''Can you walk me through a complex coding problem you solved recently?''
              | Some r \<Rightarrow>
                  (case projects r of
                     [] \<Rightarrow> js ''Can you walk me through a complex coding problem you solved recently?''
                   | p # ps \<Rightarrow>
                       js ''I noticed you worked on '' @ orElse (proj_name p) (js ''a software project'') @
                       js ''. Can you walk me through the technical challenges you faced and how you solved them?'')),
           q_category = js ''Technical''\<rparr>,
          \<lparr>q_id = 7,
           q_text =
             (case resumeContent of
                None \<Rightarrow> js ''How do you stay updated with the latest technologies and programming languages?''
              | Some r \<Rightarrow>
                  if list_ex isCoreTech (skills r)
                  then js ''You mention experience with '' @
                       join (js '' and '') (take 2 (filter isCoreTech (skills r))) @
                       js ''. How do you stay updated with these technologies and what recent changes have excited you?''
                  else js ''How do you stay updated with the latest technologies and programming languages?''),
           q_category = js ''Technical''\<rparr>]
       else []) @
      (if includesAny titleLower [''data'', ''analyst'', ''scientist'']
       then
         [\<lparr>q_id = 8,
           q_text =
             (case resumeContent of
                None \<Rightarrow> js ''Describe a data analysis project you worked on and the insights you discovered.''
              | Some r \<Rightarrow>
                  (case find isDataProject (projects r) of
                     None \<Rightarrow> js ''Describe a data analysis project you worked on and the insights you discovered.''
                   | Some dataProject \<Rightarrow>
                       js ''Tell me about '' @ orElse (proj_name dataProject) (js ''your data project'') @
                       js '' and the insights you discovered during your analysis.'')),
           q_category = js ''Technical''\<rparr>,
          \<lparr>q_id = 9,
           q_text = js ''How do you handle large datasets and ensure data quality?'',
           q_category = js ''Technical''\<rparr>]
       else []) @
      (if includesAny titleLower [''manager'', ''lead'', ''director'']
       then
         [\<lparr>q_id = 10,
           q_text =
             (case resumeContent of
                None \<Rightarrow> js ''Tell me about a time when you had to lead a team through a difficult project.''
              | Some r \<Rightarrow>
                  (case find isLeadershipRole (experience r) of
                     None \<Rightarrow> js ''Tell me about a time when you had to lead a team through a difficult project.''
                   | Some leadershipRole \<Rightarrow>
                       js ''In your role as '' @ orElse (title leadershipRole) (js ''a team lead'') @
                       js '', tell me about a time when you had to lead your team through a difficult project.'')),
           q_category = js ''Leadership''\<rparr>,
          \<lparr>q_id = 11,
           q_text = js ''How do you motivate team members and handle underperforming employees?'',
           q_category = js ''Leadership''\<rparr>]
       else []))"

definition generateSmartQuestions :: "job_details \<Rightarrow> ParsedResume option \<Rightarrow> question_item list" where
  \<comment> \<open>\<open>[...baseQuestions, ...roleSpecificQuestions].slice(0, 5)\<close>\<close>
  "generateSmartQuestions jobDetails resumeContent =
     take 5 (baseQuestions jobDetails resumeContent @
             getRoleSpecificQuestions (jd_title jobDetails) (jd_requirements jobDetails)
               resumeContent)"

section \<open>Scenario inputs of the scoring engine\<close>

definition scenarioAnswer :: jstring where
  "scenarioAnswer = js ''I developed a React dashboard at my last job handling 10k daily users, solved a caching bug that cut load time by half, and collaborated daily with a cross-functional team.''"

definition scenarioLower :: jstring where
  "scenarioLower = js ''i developed a react dashboard at my last job handling 10k daily users, solved a caching bug that cut load time by half, and collaborated daily with a cross-functional team.''"

definition noJob :: job_details where
  "noJob = \<lparr>jd_title = [], jd_company = [], jd_description = [], jd_requirements = []\<rparr>"

definition poorBatch :: "answer_entry list" where
  \<comment> \<open>one answer of six words and one of thirteen words with a meaningful verb\<close>
  "poorBatch =
     [\<lparr>questionIndex = 0, answer = js ''I use react daily at work''\<rparr>,
      \<lparr>questionIndex = 1,
       answer = js ''I developed the database layer and solved a problem with our react code''\<rparr>]"

definition poisonedBatch :: "answer_entry list" where
  "poisonedBatch =
     [\<lparr>questionIndex = 0, answer = js ''yup''\<rparr>,
      \<lparr>questionIndex = 1, answer = scenarioAnswer\<rparr>]"

definition inventoryResume :: ParsedResume where
  "inventoryResume =
     \<lparr>personalInfo = \<lparr>name = None, email = None, phone = None, location = None\<rparr>,
      skills = [], experience = [],
      projects = [\<lparr>proj_name = Some (js ''Inventory Tracker''), proj_description = None,
                   technologies = None\<rparr>],
      education = [], certifications = [], languages = []\<rparr>"

definition softwareJob :: job_details where
  "softwareJob =
     \<lparr>jd_title = js ''Software Engineer'', jd_company = js ''Acme'', jd_description = [],
      jd_requirements = []\<rparr>"

section \<open>Properties of the scoring engine\<close>

lemma scenario_trim_lower: "trim (toLowerCase scenarioAnswer) = scenarioLower"
  by (simp add: scenarioAnswer_def scenarioLower_def js_def trim_def toLowerCase_def
      lowerUnit_def isUpper_def isWhiteSpace_def)

lemma scenario_wordCount: "wordCountOf scenarioLower = 30"
  by (simp add: scenarioLower_def js_def wordCountOf_def splitRe_def Plus_def isWhiteSpace_def)

lemma scenario_sentences:
  "length (splitRe (Plus (Cls (\<lambda>c. c = 46 \<or> c = 33 \<or> c = 63))) scenarioLower) = 2"
  by (simp add: scenarioLower_def js_def splitRe_def Plus_def)

lemma scenario_technical:
  "includesAny scenarioLower
     [''technology'', ''software'', ''system'', ''development'', ''coding'',
      ''programming'', ''api'', ''database'', ''framework'', ''react'',
      ''node'', ''javascript'']"
  by (simp add: scenarioLower_def js_def)

lemma scenario_experience:
  "includesAny scenarioLower
     [''experience'', ''worked'', ''project'', ''developed'', ''implemented'',
      ''built'', ''created'', ''managed'', ''led'']"
  by (simp add: scenarioLower_def js_def)

lemma scenario_problemSolving:
  "includesAny scenarioLower
     [''challenge'', ''problem'', ''solved'', ''overcame'', ''difficult'',
      ''troubleshoot'', ''debug'', ''fix'', ''issue'']"
  by (simp add: scenarioLower_def js_def)

lemma scenario_examples:
  "\<not> includesAny scenarioLower
     [''example'', ''specific'', ''instance'', ''case'', ''situation'',
      ''time when'', ''once'', ''when i'']"
  by (simp add: scenarioLower_def js_def)

lemma analyzeAnswer_scenario:
  "analyzeAnswer a \<lparr>questionIndex = i, answer = scenarioAnswer\<rparr> =
     a\<lparr>totalWords := totalWords a + 30,
       averageLength := addNum (averageLength a) 30,
       meaningfulAnswers := meaningfulAnswers a + 1,
       technicalTerms := technicalTerms a + 1,
       experienceMentions := experienceMentions a + 1,
       problemSolving := problemSolving a + 1,
       communicationQuality := communicationQuality a + 1\<rparr>"
  by (simp add: analyzeAnswer_def Let_def scenario_trim_lower scenario_wordCount
      scenario_sentences scenario_technical scenario_experience scenario_problemSolving
      scenario_examples isNonsensicalAnswer_def isPoorQualityAnswer_def
      del: includesAny.simps)

lemma analyzeAnswer_yup:
  "analyzeAnswer a \<lparr>questionIndex = i, answer = js ''yup''\<rparr> =
     a\<lparr>totalWords := totalWords a + 1,
       averageLength := addNum (averageLength a) 1,
       nonsensicalAnswers := nonsensicalAnswers a + 1\<rparr>"
  by (simp add: analyzeAnswer_def Let_def js_def trim_def toLowerCase_def lowerUnit_def
      isUpper_def isWhiteSpace_def wordCountOf_def splitRe_def Plus_def
      isNonsensicalAnswer_def)

lemma analyzeAnswers_scenario:
  "analyzeAnswers [\<lparr>questionIndex = 0, answer = scenarioAnswer\<rparr>] =
     \<lparr>totalWords = 30, averageLength = Num 30, technicalTerms = 1, experienceMentions = 1,
      problemSolving = 1, specificExamples = 0, communicationQuality = 1,
      nonsensicalAnswers = 0, poorQualityAnswers = 0, meaningfulAnswers = 1\<rparr>"
  by (simp add: analyzeAnswers_def analyzeAnswer_scenario emptyAnalysis_def)

lemma analyzeAnswers_poisoned:
  "analyzeAnswers poisonedBatch =
     \<lparr>totalWords = 31, averageLength = Num (31 / 2), technicalTerms = 1,
      experienceMentions = 1, problemSolving = 1, specificExamples = 0,
      communicationQuality = 1, nonsensicalAnswers = 1, poorQualityAnswers = 0,
      meaningfulAnswers = 1\<rparr>"
  by (simp add: analyzeAnswers_def poisonedBatch_def analyzeAnswer_scenario analyzeAnswer_yup
      emptyAnalysis_def)

lemma analyzeAnswers_tyu:
  "analyzeAnswers [\<lparr>questionIndex = 0, answer = js ''yup''\<rparr>] =
     \<lparr>totalWords = 1, averageLength = Num 1, technicalTerms = 0, experienceMentions = 0,
      problemSolving = 0, specificExamples = 0, communicationQuality = 0,
      nonsensicalAnswers = 1, poorQualityAnswers = 0, meaningfulAnswers = 0\<rparr>"
  by (simp add: analyzeAnswers_def analyzeAnswer_yup emptyAnalysis_def)

lemma calculateScores_nonsensical:
  "0 < nonsensicalAnswers a \<Longrightarrow>
   calculateScores answers a jd =
     \<lparr>overall = min 15 (of_nat (nonsensicalAnswers a) * 5),
      technical = min 10 (of_nat (nonsensicalAnswers a) * 3),
      behavioral = min 10 (of_nat (nonsensicalAnswers a) * 3),
      communication = min 15 (of_nat (nonsensicalAnswers a) * 4)\<rparr>"
  by (simp add: calculateScores_def)

text \<open>
  Claim C2. Whenever the aggregate analysis of a batch counts at least one nonsensical
  answer, the overall score is at most \<open>min(15, count \<times> 5)\<close>, the technical score at
  most \<open>min(10, count \<times> 3)\<close>, and the four scores are a function of the nonsensical
  count alone: any other analysis, batch and job with the same count gets the same scores.
\<close>

theorem nonsensical_regime_scores:
  assumes "nonsensicalAnswers a \<ge> 1"
  shows "overall (calculateScores answers a jd) \<le> min 15 (of_nat (nonsensicalAnswers a) * 5) \<and>
         technical (calculateScores answers a jd) \<le> min 10 (of_nat (nonsensicalAnswers a) * 3) \<and>
         (\<forall>a' answers' jd'. nonsensicalAnswers a' = nonsensicalAnswers a \<longrightarrow>
            calculateScores answers' a' jd' = calculateScores answers a jd)"
proof -
  from assms have pos: "0 < nonsensicalAnswers a" by simp
  have "calculateScores answers' a' jd' = calculateScores answers a jd"
    if "nonsensicalAnswers a' = nonsensicalAnswers a" for a' answers' jd'
  proof -
    from that pos have "0 < nonsensicalAnswers a'" by simp
    then show ?thesis
      by (simp only: calculateScores_nonsensical [OF pos] calculateScores_nonsensical that)
  qed
  then show ?thesis by (simp add: calculateScores_nonsensical [OF pos])
qed

theorem nonsensical_regime_scores_witness:
  "nonsensicalAnswers (analyzeAnswers poisonedBatch) \<ge> 1 \<and>
   overall (calculateScores poisonedBatch (analyzeAnswers poisonedBatch) noJob) \<le> 15 \<and>
   technical (calculateScores poisonedBatch (analyzeAnswers poisonedBatch) noJob) \<le> 10 \<and>
   nonsensicalAnswers (analyzeAnswers [\<lparr>questionIndex = 0, answer = js ''yup''\<rparr>]) =
     nonsensicalAnswers (analyzeAnswers poisonedBatch) \<and>
   calculateScores [\<lparr>questionIndex = 0, answer = js ''yup''\<rparr>]
       (analyzeAnswers [\<lparr>questionIndex = 0, answer = js ''yup''\<rparr>]) noJob =
     calculateScores poisonedBatch (analyzeAnswers poisonedBatch) noJob"
proof -
  have h: "nonsensicalAnswers (analyzeAnswers poisonedBatch) \<ge> 1"
    by (simp add: analyzeAnswers_poisoned)
  have e: "nonsensicalAnswers (analyzeAnswers [\<lparr>questionIndex = 0, answer = js ''yup''\<rparr>]) =
           nonsensicalAnswers (analyzeAnswers poisonedBatch)"
    by (simp add: analyzeAnswers_poisoned analyzeAnswers_tyu)
  note t = nonsensical_regime_scores [OF h, of poisonedBatch noJob]
  from t have "overall (calculateScores poisonedBatch (analyzeAnswers poisonedBatch) noJob)
      \<le> min 15 (of_nat (nonsensicalAnswers (analyzeAnswers poisonedBatch)) * 5)"
    by (rule conjunct1)
  then have b1: "overall (calculateScores poisonedBatch (analyzeAnswers poisonedBatch) noJob) \<le> 15"
    by simp
  from t have "technical (calculateScores poisonedBatch (analyzeAnswers poisonedBatch) noJob)
      \<le> min 10 (of_nat (nonsensicalAnswers (analyzeAnswers poisonedBatch)) * 3)"
    by (rule conjunct1 [OF conjunct2])
  then have b2: "technical (calculateScores poisonedBatch (analyzeAnswers poisonedBatch) noJob) \<le> 10"
    by simp
  from t have "\<forall>a' answers' jd'.
      nonsensicalAnswers a' = nonsensicalAnswers (analyzeAnswers poisonedBatch) \<longrightarrow>
      calculateScores answers' a' jd' =
        calculateScores poisonedBatch (analyzeAnswers poisonedBatch) noJob"
    by (rule conjunct2 [OF conjunct2])
  with e have b3: "calculateScores [\<lparr>questionIndex = 0, answer = js ''yup''\<rparr>]
       (analyzeAnswers [\<lparr>questionIndex = 0, answer = js ''yup''\<rparr>]) noJob =
     calculateScores poisonedBatch (analyzeAnswers poisonedBatch) noJob"
    by blast
  from h b1 b2 e b3 show ?thesis by (intro conjI)
qed

lemma analyzeAnswers_poorBatch:
  "analyzeAnswers poorBatch =
     \<lparr>totalWords = 19, averageLength = Num (19 / 2), technicalTerms = 2,
      experienceMentions = 1, problemSolving = 1, specificExamples = 0,
      communicationQuality = 0, nonsensicalAnswers = 0, poorQualityAnswers = 1,
      meaningfulAnswers = 1\<rparr>"
  by (simp add: analyzeAnswers_def poorBatch_def analyzeAnswer_def Let_def js_def trim_def
      toLowerCase_def lowerUnit_def isUpper_def isWhiteSpace_def wordCountOf_def splitRe_def
      Plus_def isNonsensicalAnswer_def isPoorQualityAnswer_def meaningfulWords_def
      emptyAnalysis_def)

lemma calculateScores_poor:
  "nonsensicalAnswers a = 0 \<Longrightarrow> 0 < poorQualityAnswers a \<Longrightarrow>
   calculateScores answers a jd =
     \<lparr>overall =
        max 0 ((max 0 (min (of_nat (technicalTerms a) * 15) 100 - of_nat (poorQualityAnswers a) * 20) +
                max 0 (min (of_nat (problemSolving a + specificExamples a) * 12) 100
                       - of_nat (poorQualityAnswers a) * 20) +
                max 0 (min (of_nat (communicationQuality a) * 20) 100
                       - of_nat (poorQualityAnswers a) * 20)) / 3
               - of_nat (poorQualityAnswers a) * 20),
      technical = max 0 (min (of_nat (technicalTerms a) * 15) 100 - of_nat (poorQualityAnswers a) * 20),
      behavioral = max 0 (min (of_nat (problemSolving a + specificExamples a) * 12) 100
                          - of_nat (poorQualityAnswers a) * 20),
      communication = max 0 (min (of_nat (communicationQuality a) * 20) 100
                             - of_nat (poorQualityAnswers a) * 20)\<rparr>"
proof -
  assume n: "nonsensicalAnswers a = 0" and p: "0 < poorQualityAnswers a"
  have s1: "(if 0 < n then min (of_nat n * k) 100 else 0) = min (of_nat n * k) (100 :: rat)"
    for n :: nat and k :: rat
    by simp
  have s2: "(if 0 < m \<or> 0 < n then min (of_nat (m + n) * k) 100 else 0) =
            min (of_nat (m + n) * k) (100 :: rat)"
    for m n :: nat and k :: rat
    by simp
  show ?thesis
    unfolding calculateScores_def Let_def s1 s2 using n p by simp
qed

text \<open>
  Claim C3, as the specification states it, fails on the code: in the poor-quality regime
  the overall score is not the mean of the three penalised scores. For a batch of one
  poor answer and one meaningful answer, both naming a technology, the three scores are
  10, 0 and 0, their mean is 10/3, and the overall score is 0.
\<close>

theorem poor_regime_overall_counterexample:
  "nonsensicalAnswers (analyzeAnswers poorBatch) = 0 \<and>
   poorQualityAnswers (analyzeAnswers poorBatch) \<ge> 1 \<and>
   overall (calculateScores poorBatch (analyzeAnswers poorBatch) noJob) \<noteq>
     max 0 ((technical (calculateScores poorBatch (analyzeAnswers poorBatch) noJob) +
             behavioral (calculateScores poorBatch (analyzeAnswers poorBatch) noJob) +
             communication (calculateScores poorBatch (analyzeAnswers poorBatch) noJob)) / 3)"
  by (simp add: analyzeAnswers_poorBatch calculateScores_poor)

text \<open>
  Claim C3, amended. In the poor-quality regime (no nonsensical answer, at least one poor
  answer) each of the technical, behavioral and communication scores is its weighted
  signal score clamped to [0,100], minus the penalty of 20 per poor answer, floored at 0;
  the overall score is the mean of these three penalised scores minus the same penalty
  once more, floored at 0.
\<close>

theorem poor_regime_scores:
  assumes "nonsensicalAnswers a = 0" and "poorQualityAnswers a \<ge> 1"
  shows "technical (calculateScores answers a jd) =
           max 0 (max 0 (min 100 (of_nat (technicalTerms a) * 15))
                  - of_nat (poorQualityAnswers a) * 20) \<and>
         behavioral (calculateScores answers a jd) =
           max 0 (max 0 (min 100 (of_nat (problemSolving a + specificExamples a) * 12))
                  - of_nat (poorQualityAnswers a) * 20) \<and>
         communication (calculateScores answers a jd) =
           max 0 (max 0 (min 100 (of_nat (communicationQuality a) * 20))
                  - of_nat (poorQualityAnswers a) * 20) \<and>
         overall (calculateScores answers a jd) =
           max 0 ((technical (calculateScores answers a jd) +
                   behavioral (calculateScores answers a jd) +
                   communication (calculateScores answers a jd)) / 3
                  - of_nat (poorQualityAnswers a) * 20)"
proof -
  from assms(2) have pos: "0 < poorQualityAnswers a" by simp
  show ?thesis
    by (simp add: calculateScores_poor [OF assms(1) pos] min.commute)
qed

theorem poor_regime_scores_witness:
  "nonsensicalAnswers (analyzeAnswers poorBatch) = 0 \<and>
   poorQualityAnswers (analyzeAnswers poorBatch) \<ge> 1 \<and>
   technical (calculateScores poorBatch (analyzeAnswers poorBatch) noJob) = 10 \<and>
   behavioral (calculateScores poorBatch (analyzeAnswers poorBatch) noJob) = 0 \<and>
   communication (calculateScores poorBatch (analyzeAnswers poorBatch) noJob) = 0 \<and>
   overall (calculateScores poorBatch (analyzeAnswers poorBatch) noJob) = 0"
proof -
  have h1: "nonsensicalAnswers (analyzeAnswers poorBatch) = 0"
    and h2: "poorQualityAnswers (analyzeAnswers poorBatch) \<ge> 1"
    by (simp_all add: analyzeAnswers_poorBatch)
  note t = poor_regime_scores [OF h1 h2, of poorBatch noJob]
  from t have t1: "technical (calculateScores poorBatch (analyzeAnswers poorBatch) noJob) = 10"
    by (simp add: analyzeAnswers_poorBatch)
  from t have t2: "behavioral (calculateScores poorBatch (analyzeAnswers poorBatch) noJob) = 0"
    by (simp add: analyzeAnswers_poorBatch)
  from t have t3: "communication (calculateScores poorBatch (analyzeAnswers poorBatch) noJob) = 0"
    by (simp add: analyzeAnswers_poorBatch)
  from t have "overall (calculateScores poorBatch (analyzeAnswers poorBatch) noJob) =
      max 0 ((technical (calculateScores poorBatch (analyzeAnswers poorBatch) noJob) +
              behavioral (calculateScores poorBatch (analyzeAnswers poorBatch) noJob) +
              communication (calculateScores poorBatch (analyzeAnswers poorBatch) noJob)) / 3
             - of_nat (poorQualityAnswers (analyzeAnswers poorBatch)) * 20)"
    by (rule conjunct2 [OF conjunct2 [OF conjunct2]])
  then have "overall (calculateScores poorBatch (analyzeAnswers poorBatch) noJob) =
      max 0 ((10 + 0 + 0) / 3 - of_nat (poorQualityAnswers (analyzeAnswers poorBatch)) * 20)"
    by (simp only: t1 t2 t3)
  then have t4: "overall (calculateScores poorBatch (analyzeAnswers poorBatch) noJob) = 0"
    by (simp add: analyzeAnswers_poorBatch)
  from h1 h2 t1 t2 t3 t4 show ?thesis by (intro conjI)
qed

lemma smartAnalysis_scores:
  "overallScore (generateSmartAnalysis qs answers jd) =
     mathRound (overall (calculateScores answers (analyzeAnswers answers) jd))"
  "technicalScore (generateSmartAnalysis qs answers jd) =
     mathRound (technical (calculateScores answers (analyzeAnswers answers) jd))"
  "behavioralScore (generateSmartAnalysis qs answers jd) =
     mathRound (behavioral (calculateScores answers (analyzeAnswers answers) jd))"
  "communicationScore (generateSmartAnalysis qs answers jd) =
     mathRound (communication (calculateScores answers (analyzeAnswers answers) jd))"
  by (simp_all add: generateSmartAnalysis_def Let_def)

lemma calculateScores_scenario:
  "calculateScores answers (analyzeAnswers [\<lparr>questionIndex = 0, answer = scenarioAnswer\<rparr>]) jd =
     \<lparr>overall = 20, technical = 20, behavioral = 15, communication = 25\<rparr>"
  by (simp add: analyzeAnswers_scenario calculateScores_def Let_def)

text \<open>
  Claim C7, as the specification states it, fails on the code: for the single strong
  answer of the scenario the three counts are at least 1, but the technical score is not
  above 50 and the behavioral score is not above 40.
\<close>

theorem scenario_scores_counterexample:
  "\<not> (technicalTerms (analyzeAnswers [\<lparr>questionIndex = 0, answer = scenarioAnswer\<rparr>]) \<ge> 1 \<and>
      problemSolving (analyzeAnswers [\<lparr>questionIndex = 0, answer = scenarioAnswer\<rparr>]) \<ge> 1 \<and>
      experienceMentions (analyzeAnswers [\<lparr>questionIndex = 0, answer = scenarioAnswer\<rparr>]) \<ge> 1 \<and>
      technicalScore (generateSmartAnalysis []
        [\<lparr>questionIndex = 0, answer = scenarioAnswer\<rparr>] noJob) > 50 \<and>
      behavioralScore (generateSmartAnalysis []
        [\<lparr>questionIndex = 0, answer = scenarioAnswer\<rparr>] noJob) > 40)"
  by (simp add: smartAnalysis_scores calculateScores_scenario mathRound_def)

text \<open>
  Claim C7, amended. For the single-answer batch of the scenario the analyzer counts
  exactly one answer with a technical term, one with problem-solving language and one
  with an experience mention, and, whatever the questions and the job, the technical
  score is 20 and the behavioral score is 15.
\<close>

theorem scenario_scores:
  "technicalTerms (analyzeAnswers [\<lparr>questionIndex = 0, answer = scenarioAnswer\<rparr>]) = 1 \<and>
   problemSolving (analyzeAnswers [\<lparr>questionIndex = 0, answer = scenarioAnswer\<rparr>]) = 1 \<and>
   experienceMentions (analyzeAnswers [\<lparr>questionIndex = 0, answer = scenarioAnswer\<rparr>]) = 1 \<and>
   technicalScore (generateSmartAnalysis qs
     [\<lparr>questionIndex = 0, answer = scenarioAnswer\<rparr>] jd) = 20 \<and>
   behavioralScore (generateSmartAnalysis qs
     [\<lparr>questionIndex = 0, answer = scenarioAnswer\<rparr>] jd) = 15"
proof -
  have counts:
    "technicalTerms (analyzeAnswers [\<lparr>questionIndex = 0, answer = scenarioAnswer\<rparr>]) = 1 \<and>
     problemSolving (analyzeAnswers [\<lparr>questionIndex = 0, answer = scenarioAnswer\<rparr>]) = 1 \<and>
     experienceMentions (analyzeAnswers [\<lparr>questionIndex = 0, answer = scenarioAnswer\<rparr>]) = 1"
    by (simp add: analyzeAnswers_scenario)
  have rounded:
    "technicalScore (generateSmartAnalysis qs
       [\<lparr>questionIndex = 0, answer = scenarioAnswer\<rparr>] jd) = 20 \<and>
     behavioralScore (generateSmartAnalysis qs
       [\<lparr>questionIndex = 0, answer = scenarioAnswer\<rparr>] jd) = 15"
    by (simp add: smartAnalysis_scores calculateScores_scenario mathRound_def floor_eq_iff)
  from counts rounded show ?thesis by blast
qed

lemma detailedFrom_length: "length (detailedFrom i qs answers jd) = length qs"
  by (induction qs arbitrary: i) simp_all

lemma analyzeAnswers_empty: "analyzeAnswers [] = emptyAnalysis\<lparr>averageLength := NaN\<rparr>"
  by (simp add: analyzeAnswers_def emptyAnalysis_def)

lemma calculateScores_empty:
  "calculateScores answers (emptyAnalysis\<lparr>averageLength := NaN\<rparr>) jd =
     \<lparr>overall = 0, technical = 0, behavioral = 0, communication = 0\<rparr>"
  by (simp add: calculateScores_def emptyAnalysis_def)

lemma mathRound_0: "mathRound 0 = 0"
  by (simp add: mathRound_def floor_eq_iff)

lemma detailedFeedback_length:
  "length (detailedFeedback (generateSmartAnalysis qs answers jd)) = length qs"
  by (simp add: generateSmartAnalysis_def generateDetailedFeedback_def detailedFrom_length
      Let_def)

text \<open>
  Claim C9. For the empty answer batch the fallback analysis returns a result whose four
  scores are 0, whatever the questions and the job, although the average word count is
  the quotient 0/0 (\<open>NaN\<close>): no comparison with it holds and no score reads it. The
  result carries one feedback entry for each question.
\<close>

theorem empty_batch_scores:
  "averageLength (analyzeAnswers []) = NaN \<and>
   overallScore (generateSmartAnalysis qs [] jd) = 0 \<and>
   technicalScore (generateSmartAnalysis qs [] jd) = 0 \<and>
   behavioralScore (generateSmartAnalysis qs [] jd) = 0 \<and>
   communicationScore (generateSmartAnalysis qs [] jd) = 0 \<and>
   length (detailedFeedback (generateSmartAnalysis qs [] jd)) = length qs"
  by (simp add: smartAnalysis_scores analyzeAnswers_empty calculateScores_empty
      detailedFeedback_length mathRound_0)

section \<open>Properties of the question generator\<close>

lemma startsWith_append: "startsWith (sub @ rest) sub"
  by (induction sub) simp_all

lemma includes_of_prefix: "includes_of (sub @ rest) sub"
proof (cases "sub @ rest")
  case Nil
  then show ?thesis by simp
next
  case (Cons a list)
  have "startsWith (sub @ rest) sub" by (rule startsWith_append)
  with Cons show ?thesis by simp
qed

lemma includes_of_append: "includes_of ys sub \<Longrightarrow> includes_of (xs @ ys) sub"
  by (induction xs) simp_all

lemma includes_of_middle: "includes_of (pre @ sub @ post) sub"
  by (rule includes_of_append) (rule includes_of_prefix)

lemma baseQuestions_length: "length (baseQuestions jd rc) = 5"
  by (simp add: baseQuestions_def)

lemma generateSmartQuestions_base: "generateSmartQuestions jd rc = baseQuestions jd rc"
  by (simp add: generateSmartQuestions_def baseQuestions_length)

text \<open>
  Claim C8. For every job and every optional resume the generator returns exactly five
  questions, and these are the five base questions: role-specific questions come after
  them and are cut by the truncation. For the title \<open>Software Engineer\<close> and a resume
  with one project named \<open>Inventory Tracker\<close>, the list has length five and a question
  whose text contains \<open>Inventory Tracker\<close>.
\<close>

theorem smart_questions_five:
  "length (generateSmartQuestions jd rc) = 5 \<and>
   generateSmartQuestions jd rc = baseQuestions jd rc \<and>
   (jd_title jd = js ''Software Engineer'' \<and> rc = Some r \<and> projects r = [p] \<and>
    proj_name p = Some (js ''Inventory Tracker'') \<longrightarrow>
      length (generateSmartQuestions jd rc) = 5 \<and>
      (\<exists>q \<in> set (generateSmartQuestions jd rc).
         includes_of (q_text q) (js ''Inventory Tracker'')))"
proof -
  have eq: "generateSmartQuestions jd rc = baseQuestions jd rc"
    by (rule generateSmartQuestions_base)
  have ne: "js ''Inventory Tracker'' \<noteq> []"
    by (simp add: js_def)
  have len: "length (generateSmartQuestions jd rc) = 5"
    by (simp add: eq baseQuestions_length)
  have inst: "\<exists>q \<in> set (generateSmartQuestions jd rc).
      includes_of (q_text q) (js ''Inventory Tracker'')"
    if "rc = Some r" "projects r = [p]" "proj_name p = Some (js ''Inventory Tracker'')"
    using that ne
    by (simp add: generateSmartQuestions_base baseQuestions_def includes_of_middle)
  have scenario:
    "jd_title jd = js ''Software Engineer'' \<and> rc = Some r \<and> projects r = [p] \<and>
     proj_name p = Some (js ''Inventory Tracker'') \<longrightarrow>
       length (generateSmartQuestions jd rc) = 5 \<and>
       (\<exists>q \<in> set (generateSmartQuestions jd rc).
          includes_of (q_text q) (js ''Inventory Tracker''))"
  proof
    assume h: "jd_title jd = js ''Software Engineer'' \<and> rc = Some r \<and> projects r = [p] \<and>
      proj_name p = Some (js ''Inventory Tracker'')"
    from h have a: "rc = Some r" by (elim conjE)
    from h have b: "projects r = [p]" by (elim conjE)
    from h have c: "proj_name p = Some (js ''Inventory Tracker'')" by (elim conjE)
    from len inst [OF a b c]
    show "length (generateSmartQuestions jd rc) = 5 \<and>
       (\<exists>q \<in> set (generateSmartQuestions jd rc).
          includes_of (q_text q) (js ''Inventory Tracker''))"
      by (rule conjI)
  qed
  from len eq scenario show ?thesis by (intro conjI)
qed

theorem smart_questions_five_witness:
  "jd_title softwareJob = js ''Software Engineer'' \<and>
   projects inventoryResume =
     [\<lparr>proj_name = Some (js ''Inventory Tracker''), proj_description = None,
       technologies = None\<rparr>] \<and>
   length (generateSmartQuestions softwareJob (Some inventoryResume)) = 5 \<and>
   (\<exists>q \<in> set (generateSmartQuestions softwareJob (Some inventoryResume)).
      includes_of (q_text q) (js ''Inventory Tracker''))"
proof -
  let ?p = "\<lparr>proj_name = Some (js ''Inventory Tracker''), proj_description = None,
             technologies = None\<rparr>"
  have h1: "jd_title softwareJob = js ''Software Engineer''"
    by (simp add: softwareJob_def)
  have h2: "projects inventoryResume = [?p]"
    by (simp add: inventoryResume_def)
  have h3: "proj_name ?p = Some (js ''Inventory Tracker'')"
    by simp
  have imp:
    "jd_title softwareJob = js ''Software Engineer'' \<and>
     Some inventoryResume = Some inventoryResume \<and> projects inventoryResume = [?p] \<and>
     proj_name ?p = Some (js ''Inventory Tracker'') \<longrightarrow>
       length (generateSmartQuestions softwareJob (Some inventoryResume)) = 5 \<and>
       (\<exists>q \<in> set (generateSmartQuestions softwareJob (Some inventoryResume)).
          includes_of (q_text q) (js ''Inventory Tracker''))"
    by (rule conjunct2 [OF conjunct2
          [OF smart_questions_five [of softwareJob "Some inventoryResume" inventoryResume ?p]]])
  have res:
    "length (generateSmartQuestions softwareJob (Some inventoryResume)) = 5 \<and>
     (\<exists>q \<in> set (generateSmartQuestions softwareJob (Some inventoryResume)).
        includes_of (q_text q) (js ''Inventory Tracker''))"
    by (rule mp [OF imp]) (intro conjI h1 h2 h3 refl)
  show ?thesis
    by (rule conjI [OF h1 conjI [OF h2 res]])
qed

end
